theory Spec2Isabelle
  imports
    Complex_Main
    "HOL-Library.AList"
    "HOL-Library.List_Lexorder"
    "HOL-Library.Char_ord"
    "HOL-Library.Log_Nat"
begin

section \<open>Python values and dictionaries\<close>

text \<open>
  Job assignments arrive as dictionaries decoded from JSON, so the value under a key can
  be \<open>None\<close>, a boolean, a number, a string, a list or a dictionary. A finite float is
  kept as the rational it denotes. \<open>PyNone\<close> also stands for the result of \<open>dict.get\<close> on
  an absent key. A dictionary is an association list in insertion order, with distinct
  keys.
\<close>

datatype pyval =
    PyNone
  | PyBool bool
  | PyInt int
  | PyFloat rat
  | PyStr string
  | PyList "pyval list"
  | PyDict "(string \<times> pyval) list"

text \<open>Python truthiness, as tested by \<open>if not job_id\<close>.\<close>

fun truthy :: "pyval \<Rightarrow> bool" where
  "truthy PyNone = False"
| "truthy (PyBool b) = b"
| "truthy (PyInt n) = (n \<noteq> 0)"
| "truthy (PyFloat x) = (x \<noteq> 0)"
| "truthy (PyStr s) = (s \<noteq> [])"
| "truthy (PyList xs) = (xs \<noteq> [])"
| "truthy (PyDict d) = (d \<noteq> [])"

text \<open>Lists and dictionaries cannot be hashed.\<close>

fun hashable :: "pyval \<Rightarrow> bool" where
  "hashable (PyList xs) = False"
| "hashable (PyDict d) = False"
| "hashable v = True"

type_synonym job_dict = "(string \<times> pyval) list"

definition dict_get :: "job_dict \<Rightarrow> string \<Rightarrow> pyval" where
  "dict_get d k = (case map_of d k of None \<Rightarrow> PyNone | Some v \<Rightarrow> v)"

definition dict_get_default :: "job_dict \<Rightarrow> string \<Rightarrow> pyval \<Rightarrow> pyval" where
  "dict_get_default d k dflt = (case map_of d k of None \<Rightarrow> dflt | Some v \<Rightarrow> v)"

text \<open>
  The exceptions of the modelled code, with what they were raised about. All of them
  derive from \<open>Exception\<close>. \<open>NoAttribute v a\<close> is the \<open>AttributeError\<close> of \<open>v.a\<close>, \<open>Unhashable\<close>
  and \<open>NotIterable\<close> are \<open>TypeError\<close>s, \<open>EmbeddedNullByte\<close> is the \<open>ValueError\<close> of a path with
  a NUL character, and \<open>OtherError\<close> is any other exception, with its message.
\<close>

datatype error =
    InvalidWorkerCount int
  | Unhashable pyval
  | NotIterable pyval
  | NoAttribute pyval string
  | EmbeddedNullByte
  | MissingJobType
  | UnknownJobType pyval
  | InputFileRequired
  | InvalidOutputFormat pyval
  | NotAPdfDocument
  | NoExtractionTask
  | MissingTaskType
  | InvalidTaskType pyval
  | OtherError string

text \<open>
  The dictionaries \<open>active_jobs\<close> and \<open>completed_jobs\<close> are association lists in insertion
  order. Their keys are strings: a job id becomes a key only after \<open>os.path.join\<close> has
  accepted it. \<open>dict_contains\<close> is membership of a string key; \<open>key_in\<close> is Python's
  \<open>k in d\<close> for any value \<open>k\<close>, which hashes \<open>k\<close> first and finds no key equal to a
  value that is not a string.
\<close>

definition dict_contains :: "(string \<times> 'v) list \<Rightarrow> string \<Rightarrow> bool" where
  "dict_contains d k = (k \<in> set (map fst d))"

definition key_in :: "pyval \<Rightarrow> (string \<times> 'v) list \<Rightarrow> error + bool" where
  "key_in k d =
     (if \<not> hashable k then Inl (Unhashable k)
      else case k of PyStr i \<Rightarrow> Inr (dict_contains d i) | _ \<Rightarrow> Inr False)"

text \<open>
  What a call into code outside the core does: it returns a value, raises an exception
  derived from \<open>Exception\<close>, raises one that is not (\<open>SystemExit\<close>, say), which no
  \<open>except Exception\<close> clause catches, or never returns.
\<close>

datatype 'a outcome = Returns 'a | Raises error | Exits | NeverReturns

section \<open>Library functions used by the validation of jobs\<close>

text \<open>
  \<open>str.lower\<close>. A string is a list of 8-bit characters; the characters outside ASCII are
  left as they are, which makes no difference to the test of the extension below: no
  such character lowers to a letter of \<open>.pdf\<close> or to a separator.
\<close>

definition lower_char :: "char \<Rightarrow> char" where
  "lower_char c =
     (case map_of (zip ''ABCDEFGHIJKLMNOPQRSTUVWXYZ'' ''abcdefghijklmnopqrstuvwxyz'') c of
        None \<Rightarrow> c
      | Some l \<Rightarrow> l)"

definition lower :: "string \<Rightarrow> string" where
  "lower s = map lower_char s"

text \<open>\<open>str.rfind\<close> for a single character: the last index, or \<open>-1\<close>.\<close>

fun rfind :: "char \<Rightarrow> string \<Rightarrow> int" where
  "rfind c [] = - 1"
| "rfind c (x # xs) =
     (if 0 \<le> rfind c xs then rfind c xs + 1 else if x = c then 0 else - 1)"

text \<open>
  The second component of \<open>os.path.splitext\<close> (\<open>genericpath._splitext\<close>): the extension
  starts at the last dot, provided that dot comes after the last separator and after
  some character of the file name that is not a dot. \<open>ntpath\<close> takes the backslash and
  the slash as separators, \<open>posixpath\<close> the slash only.
\<close>

definition splitext_ext :: "bool \<Rightarrow> string \<Rightarrow> string" where
  "splitext_ext nt p =
     (let sepIndex = (if nt then max (rfind (CHR 0x5C) p) (rfind CHR ''/'' p)
                      else rfind CHR ''/'' p);
          dotIndex = rfind CHR ''.'' p
      in if sepIndex < dotIndex
            \<and> list_ex (\<lambda>c. c \<noteq> CHR ''.'')
                  (take (nat (dotIndex - (sepIndex + 1))) (drop (nat (sepIndex + 1)) p))
         then drop (nat dotIndex) p
         else [])"

section \<open>Jobs: \<open>jobs/base_job.py\<close>, \<open>jobs/factory.py\<close>, \<open>jobs/ocr_job.py\<close>, \<open>jobs/pdf_parse_job.py\<close>\<close>

datatype job_class = OCRJob | PDFParseJob

record job =
  job_id :: string
  job_data :: job_dict
  job_class :: job_class
  job_type :: pyval
  priority :: pyval
  timeout_seconds :: pyval
  parameters :: pyval

text \<open>\<open>BaseJob.__init__\<close>: the fields read from the job data.\<close>

definition BaseJob_init :: "job_class \<Rightarrow> string \<Rightarrow> job_dict \<Rightarrow> job" where
  "BaseJob_init cls jid jd =
     \<lparr> job_id = jid, job_data = jd, job_class = cls,
       job_type = dict_get jd ''job_type'',
       priority = dict_get_default jd ''priority'' (PyInt 5),
       timeout_seconds = dict_get_default jd ''timeout_seconds'' (PyInt 3600),
       parameters = dict_get_default jd ''parameters'' (PyDict []) \<rparr>"

text \<open>
  The constructors of the two job classes first create the directories of the job
  (\<open>os.makedirs\<close> in \<open>BaseJob.__init__\<close> and in \<open>OCRJob.__init__\<close>); \<open>dirs\<close> is the exception
  that this raises, if any. Then they call \<open>get\<close> on \<open>parameters\<close>, and \<open>OCRJob\<close> also on its
  \<open>preprocessing\<close> and \<open>advanced_options\<close> entries: \<open>AttributeError\<close> unless these are
  dictionaries.
\<close>

definition OCRJob_init :: "error option \<Rightarrow> string \<Rightarrow> job_dict \<Rightarrow> error + job" where
  "OCRJob_init dirs jid jd =
     (case dirs of
        Some e \<Rightarrow> Inl e
      | None \<Rightarrow>
          (case dict_get_default jd ''parameters'' (PyDict []) of
             PyDict p \<Rightarrow>
               (case dict_get_default p ''preprocessing'' (PyDict []) of
                  PyDict pre \<Rightarrow>
                    (case dict_get_default p ''advanced_options'' (PyDict []) of
                       PyDict adv \<Rightarrow> Inr (BaseJob_init OCRJob jid jd)
                     | v \<Rightarrow> Inl (NoAttribute v ''get''))
                | v \<Rightarrow> Inl (NoAttribute v ''get''))
           | v \<Rightarrow> Inl (NoAttribute v ''get'')))"

definition PDFParseJob_init :: "error option \<Rightarrow> string \<Rightarrow> job_dict \<Rightarrow> error + job" where
  "PDFParseJob_init dirs jid jd =
     (case dirs of
        Some e \<Rightarrow> Inl e
      | None \<Rightarrow>
          (case dict_get_default jd ''parameters'' (PyDict []) of
             PyDict p \<Rightarrow> Inr (BaseJob_init PDFParseJob jid jd)
           | v \<Rightarrow> Inl (NoAttribute v ''get'')))"

text \<open>\<open>JobFactory.__init__\<close>: the registry of job classes.\<close>

definition JobFactory_init :: "(string \<times> job_class) list" where
  "JobFactory_init = [(''ocr'', OCRJob), (''pdf_parse'', PDFParseJob)]"

text \<open>
  \<open>JobFactory.create_job\<close>: \<open>job_classes.get(job_type)\<close> hashes the job type and finds no
  class for a type that is not a registered string.
\<close>

definition create_job ::
  "(string \<times> job_class) list \<Rightarrow> error option \<Rightarrow> pyval \<Rightarrow> string \<Rightarrow> job_dict \<Rightarrow> error + job"
where
  "create_job classes dirs jtype jid jd =
     (if \<not> hashable jtype then Inl (Unhashable jtype)
      else
        (case (case jtype of PyStr t \<Rightarrow> map_of classes t | _ \<Rightarrow> None) of
           None \<Rightarrow> Inl (UnknownJobType jtype)
         | Some OCRJob \<Rightarrow> OCRJob_init dirs jid jd
         | Some PDFParseJob \<Rightarrow> PDFParseJob_init dirs jid jd))"

text \<open>
  \<open>OCRJob._validate_parameters\<close> on the job's \<open>parameters\<close> dictionary: an input file is
  required; the language (default \<open>eng\<close>) is looked up in a set, which hashes it, and an
  unknown one only logs a warning; the output format (default \<open>txt\<close>) must be one of
  the known formats. \<open>None\<close> is a validation that returns.
\<close>

definition OCRJob_validate_parameters :: "job_dict \<Rightarrow> error option" where
  "OCRJob_validate_parameters params =
     (if \<not> truthy (dict_get params ''input_file'') then Some InputFileRequired
      else if \<not> hashable (dict_get_default params ''language'' (PyStr ''eng''))
      then Some (Unhashable (dict_get_default params ''language'' (PyStr ''eng'')))
      else if \<not> hashable (dict_get_default params ''output_format'' (PyStr ''txt''))
      then Some (Unhashable (dict_get_default params ''output_format'' (PyStr ''txt'')))
      else if dict_get_default params ''output_format'' (PyStr ''txt'')
                \<in> set (map PyStr [''txt'', ''json'', ''docx'', ''pdf'', ''csv''])
      then None
      else Some (InvalidOutputFormat (dict_get_default params ''output_format'' (PyStr ''txt''))))"

text \<open>
  The loop of \<open>PDFParseJob._validate_parameters\<close> over the extraction tasks: each task
  must be a dictionary with a truthy \<open>task_type\<close> among the known ones.
\<close>

fun validate_tasks :: "pyval list \<Rightarrow> error option" where
  "validate_tasks [] = None"
| "validate_tasks (task # tasks) =
     (case task of
        PyDict t \<Rightarrow>
          (if \<not> truthy (dict_get t ''task_type'') then Some MissingTaskType
           else if \<not> hashable (dict_get t ''task_type'')
           then Some (Unhashable (dict_get t ''task_type''))
           else if dict_get t ''task_type''
                     \<in> set (map PyStr [''text'', ''tables'', ''forms'', ''images'',
                                         ''metadata'', ''structure''])
           then validate_tasks tasks
           else Some (InvalidTaskType (dict_get t ''task_type'')))
      | v \<Rightarrow> Some (NoAttribute v ''get''))"

text \<open>
  \<open>PDFParseJob._validate_parameters\<close>: the input file must be a string whose lower-case
  form has the extension \<open>.pdf\<close>, and \<open>extraction_tasks\<close> (default \<open>[]\<close>) must be truthy.
  Iterating over a dictionary or a string yields its keys or its characters, which
  have no \<open>get\<close>; a truthy boolean or number cannot be iterated over.
\<close>

definition PDFParseJob_validate_parameters :: "bool \<Rightarrow> job_dict \<Rightarrow> error option" where
  "PDFParseJob_validate_parameters nt params =
     (if \<not> truthy (dict_get params ''input_file'') then Some InputFileRequired
      else
        (case dict_get params ''input_file'' of
           PyStr input_file \<Rightarrow>
             (if splitext_ext nt (lower input_file) \<noteq> ''.pdf'' then Some NotAPdfDocument
              else if \<not> truthy (dict_get_default params ''extraction_tasks'' (PyList []))
              then Some NoExtractionTask
              else
                (case dict_get_default params ''extraction_tasks'' (PyList []) of
                   PyList tasks \<Rightarrow> validate_tasks tasks
                 | PyDict d \<Rightarrow> Some (NoAttribute (PyStr (fst (hd d))) ''get'')
                 | PyStr s \<Rightarrow> Some (NoAttribute (PyStr [hd s]) ''get'')
                 | v \<Rightarrow> Some (NotIterable v)))
         | v \<Rightarrow> Some (NoAttribute v ''lower'')))"

text \<open>
  \<open>_validate_parameters\<close> of a job, by its class; \<open>nt\<close> tells whether \<open>os.path\<close> is
  \<open>ntpath\<close>.
\<close>

definition validate_parameters :: "bool \<Rightarrow> job \<Rightarrow> error option" where
  "validate_parameters nt j =
     (case parameters j of
        PyDict params \<Rightarrow>
          (case job_class j of
             OCRJob \<Rightarrow> OCRJob_validate_parameters params
           | PDFParseJob \<Rightarrow> PDFParseJob_validate_parameters nt params)
      | v \<Rightarrow> Some (NoAttribute v ''get''))"

text \<open>
  What is outside the core when a job runs: the flavour of \<open>os.path\<close>, and what
  \<open>_process_job\<close>, which reads files and calls the OCR and PDF libraries, does on this
  run.
\<close>

record environment =
  nt_paths :: bool
  process_job :: "pyval outcome"

text \<open>
  The result dictionary: \<open>status\<close>, \<open>result\<close> on success, and on failure the \<open>error\<close> entry
  with the exception and the job id and type from \<open>_get_error_details\<close>. The
  \<open>processing_stats\<close> entry (wall-clock readings) is left out.
\<close>

record result_data =
  status :: string
  result :: "pyval option"
  error_message :: "error option"
  error_details :: "(string \<times> pyval) option"

definition completed_result :: "pyval \<Rightarrow> result_data" where
  "completed_result r =
     \<lparr> status = ''completed'', result = Some r, error_message = None, error_details = None \<rparr>"

definition failed_result :: "job \<Rightarrow> error \<Rightarrow> result_data" where
  "failed_result j e =
     \<lparr> status = ''failed'', result = None, error_message = Some e,
       error_details = Some (job_id j, job_type j) \<rparr>"

text \<open>
  \<open>BaseJob.execute\<close>: \<open>_validate_parameters\<close>, then \<open>_prepare_input\<close>, which only writes a log
  line, then \<open>_process_job\<close>. An exception derived from \<open>Exception\<close> is caught and turned
  into a failed result; any other exception leaves the method. Nothing in the method
  waits with a limit: when \<open>_process_job\<close> never returns, \<open>execute\<close> never returns.
\<close>

definition BaseJob_execute :: "job \<Rightarrow> environment \<Rightarrow> result_data outcome" where
  "BaseJob_execute j env =
     (case validate_parameters (nt_paths env) j of
        Some e \<Rightarrow> Returns (failed_result j e)
      | None \<Rightarrow>
          (case process_job env of
             Returns r \<Rightarrow> Returns (completed_result r)
           | Raises e \<Rightarrow> Returns (failed_result j e)
           | Exits \<Rightarrow> Exits
           | NeverReturns \<Rightarrow> NeverReturns))"

section \<open>The job manager: \<open>core/job_manager.py\<close>\<close>

text \<open>
  The worker thread runs \<open>_worker_loop\<close>. Between the capacity check, the dequeue and the
  insertion into \<open>active_jobs\<close> it does not hold the lock, so other threads may run in
  between; \<open>worker_pc\<close> records where in the loop body the thread stands.
\<close>

datatype worker_pc = LoopHead | CapacityChecked | Dequeued job_dict

text \<open>
  \<open>executor\<close> holds the \<open>_execute_job\<close> tasks submitted to the thread pool that have not
  finished.
\<close>

record job_manager =
  concurrent_jobs :: int
  cleanup_after_job :: bool
  job_queue :: "job_dict list"
  active_jobs :: "(string \<times> job) list"
  completed_jobs :: "(string \<times> result_data) list"
  job_classes :: "(string \<times> job_class) list"
  executor :: "job list"
  worker :: worker_pc

text \<open>
  \<open>JobManager.__init__\<close>: \<open>work_dir\<close> is the exception raised by \<open>os.makedirs\<close> for the work
  directory, if any; then \<open>ThreadPoolExecutor(max_workers=n)\<close> raises \<open>ValueError\<close> for
  \<open>n \<le> 0\<close>, so no manager exists with such a limit.
\<close>

definition new_manager :: "int \<Rightarrow> bool \<Rightarrow> job_manager" where
  "new_manager cj cleanup =
     \<lparr> concurrent_jobs = cj, cleanup_after_job = cleanup, job_queue = [],
       active_jobs = [], completed_jobs = [], job_classes = JobFactory_init,
       executor = [], worker = LoopHead \<rparr>"

definition JobManager_init :: "error option \<Rightarrow> int \<Rightarrow> bool \<Rightarrow> error + job_manager" where
  "JobManager_init work_dir cj cleanup =
     (case work_dir of
        Some e \<Rightarrow> Inl e
      | None \<Rightarrow> if cj \<le> 0 then Inl (InvalidWorkerCount cj) else Inr (new_manager cj cleanup))"

text \<open>
  \<open>add_job\<close>: the test \<open>job_id in self.active_jobs or job_id in self.completed_jobs\<close>
  raises \<open>TypeError\<close> for a job id that cannot be hashed, and looks at the second
  dictionary only when the first does not have the key.
\<close>

definition add_job :: "job_manager \<Rightarrow> job_dict \<Rightarrow> error + bool \<times> job_manager" where
  "add_job s jd =
     (let jid = dict_get jd ''job_id'' in
      if \<not> truthy jid then Inr (False, s)
      else
        (case key_in jid (active_jobs s) of
           Inl e \<Rightarrow> Inl e
         | Inr True \<Rightarrow> Inr (False, s)
         | Inr False \<Rightarrow>
             (case key_in jid (completed_jobs s) of
                Inl e \<Rightarrow> Inl e
              | Inr True \<Rightarrow> Inr (False, s)
              | Inr False \<Rightarrow> Inr (True, s\<lparr>job_queue := job_queue s @ [jd]\<rparr>))))"

definition active_job_count :: "job_manager \<Rightarrow> int" where
  "active_job_count s = int (length (active_jobs s))"

definition has_capacity :: "job_manager \<Rightarrow> bool" where
  "has_capacity s = (int (length (active_jobs s)) < concurrent_jobs s)"

definition get_available_capacity :: "job_manager \<Rightarrow> int" where
  "get_available_capacity s = max 0 (concurrent_jobs s - int (length (active_jobs s)))"

definition get_completed_jobs :: "job_manager \<Rightarrow> (string \<times> result_data) list" where
  "get_completed_jobs s = completed_jobs s"

definition remove_completed_job :: "job_manager \<Rightarrow> string \<Rightarrow> job_manager" where
  "remove_completed_job s jid =
     (if dict_contains (completed_jobs s) jid
      then s\<lparr>completed_jobs := AList.delete jid (completed_jobs s)\<rparr>
      else s)"

text \<open>
  \<open>_worker_loop\<close>, first part of the loop body: without capacity the thread sleeps and
  starts over.
\<close>

definition worker_check :: "job_manager \<Rightarrow> job_manager" where
  "worker_check s =
     (case worker s of
        LoopHead \<Rightarrow> if has_capacity s then s\<lparr>worker := CapacityChecked\<rparr> else s
      | _ \<Rightarrow> s)"

text \<open>
  Second part: the non-blocking \<open>get\<close>; an empty queue or a job without \<open>job_id\<close> sends the
  thread back to the loop head.
\<close>

definition worker_get :: "job_manager \<Rightarrow> job_manager" where
  "worker_get s =
     (case worker s of
        CapacityChecked \<Rightarrow>
          (case job_queue s of
             [] \<Rightarrow> s\<lparr>worker := LoopHead\<rparr>
           | jd # q \<Rightarrow>
               if \<not> truthy (dict_get jd ''job_id'')
               then s\<lparr>job_queue := q, worker := LoopHead\<rparr>
               else s\<lparr>job_queue := q, worker := Dequeued jd\<rparr>)
      | _ \<Rightarrow> s)"

text \<open>
  \<open>ThreadPoolExecutor.submit\<close> either returns, or raises: before the task is queued (the
  pool is shut down) or after (no new thread can be started); \<open>SubmitRaised queued\<close> tells
  which.
\<close>

datatype submission = Submitted | SubmitRaised bool

text \<open>
  What is outside the core during one dispatch: the exception, if any, raised by
  \<open>os.makedirs(job_dir)\<close> in the worker loop, the one raised by the directory creations
  of the job's constructor, and what \<open>submit\<close> does.
\<close>

record dispatch_env =
  job_dir :: "error option"
  init_dirs :: "error option"
  submit :: submission

text \<open>A dispatch during which every directory is created and the task is submitted.\<close>

definition dispatch_ok :: dispatch_env where
  "dispatch_ok = \<lparr> job_dir = None, init_dirs = None, submit = Submitted \<rparr>"

text \<open>
  \<open>os.makedirs(job_dir, exist_ok=True)\<close> for the job directory of a job id: a NUL
  character in the path always raises \<open>ValueError\<close>; otherwise the file system decides
  (a name that is too long, a file in the way, no permission).
\<close>

definition makedirs_job_dir :: "error option \<Rightarrow> string \<Rightarrow> error option" where
  "makedirs_job_dir fs jid = (if CHR 0x00 \<in> set jid then Some EmbeddedNullByte else fs)"

text \<open>The inner \<open>try\<close> block up to the creation of the job instance.\<close>

definition prepare_job :: "job_manager \<Rightarrow> error option \<Rightarrow> string \<Rightarrow> job_dict \<Rightarrow> error + job" where
  "prepare_job s dirs jid jd =
     (let jtype = dict_get jd ''job_type'' in
      if \<not> truthy jtype then Inl MissingJobType
      else create_job (job_classes s) dirs jtype jid jd)"

text \<open>
  Third part. \<open>os.path.join\<close> raises \<open>TypeError\<close> for a \<open>job_id\<close> that is not a string, and
  \<open>os.makedirs\<close> may raise for one that is; the outer handler catches both, and the job
  is gone. An error while preparing the job is passed to \<open>_notify_job_failure\<close>, which
  only writes a log line. Otherwise the job enters \<open>active_jobs\<close> and is submitted to the
  thread pool; when \<open>submit\<close> raises, the same handler logs it and the job stays in
  \<open>active_jobs\<close>.
\<close>

definition worker_dispatch :: "job_manager \<Rightarrow> dispatch_env \<Rightarrow> job_manager" where
  "worker_dispatch s fs =
     (case worker s of
        Dequeued jd \<Rightarrow>
          (case dict_get jd ''job_id'' of
             PyStr jid \<Rightarrow>
               (case makedirs_job_dir (job_dir fs) jid of
                  Some e \<Rightarrow> s\<lparr>worker := LoopHead\<rparr>
                | None \<Rightarrow>
                    (case prepare_job s (init_dirs fs) jid jd of
                       Inl e \<Rightarrow> s\<lparr>worker := LoopHead\<rparr>
                     | Inr j \<Rightarrow>
                         s\<lparr>active_jobs := AList.update jid j (active_jobs s),
                           executor :=
                             (case submit fs of
                                Submitted \<Rightarrow> executor s @ [j]
                              | SubmitRaised queued \<Rightarrow>
                                  if queued then executor s @ [j] else executor s),
                           worker := LoopHead\<rparr>))
           | _ \<Rightarrow> s\<lparr>worker := LoopHead\<rparr>)
      | _ \<Rightarrow> s)"

text \<open>
  \<open>_execute_job\<close> in a pool thread. A result is stored under the job id and the job
  leaves \<open>active_jobs\<close>; an exception derived from \<open>Exception\<close> only removes the job from
  \<open>active_jobs\<close>; any other exception passes through both handlers and changes nothing.
  \<open>None\<close> when \<open>job.execute()\<close> never returns, so that the method never gets to the
  dictionaries.
\<close>

definition execute_job :: "job_manager \<Rightarrow> job \<Rightarrow> environment \<Rightarrow> job_manager option" where
  "execute_job s j env =
     (case BaseJob_execute j env of
        Returns res \<Rightarrow>
          Some (s\<lparr>completed_jobs := AList.update (job_id j) res (completed_jobs s),
                  active_jobs := AList.delete (job_id j) (active_jobs s)\<rparr>)
      | Raises e \<Rightarrow> Some (s\<lparr>active_jobs := AList.delete (job_id j) (active_jobs s)\<rparr>)
      | Exits \<Rightarrow> Some s
      | NeverReturns \<Rightarrow> None)"

text \<open>
  The atomic steps of the threads that share the manager: the agent loop (\<open>AddJob\<close>, whose
  exception the caller logs, and \<open>RemoveCompleted\<close>), the worker thread, and the pool
  threads (\<open>ExecuteJob i env\<close>: the \<open>i\<close>-th submitted task runs in the environment \<open>env\<close>; a
  task that never returns stays in the pool).
\<close>

datatype event =
    AddJob job_dict
  | WorkerCheck
  | WorkerGet
  | WorkerDispatch dispatch_env
  | ExecuteJob nat environment
  | RemoveCompleted string

definition remove_nth :: "nat \<Rightarrow> 'a list \<Rightarrow> 'a list" where
  "remove_nth i xs = take i xs @ drop (Suc i) xs"

fun step :: "job_manager \<Rightarrow> event \<Rightarrow> job_manager" where
  "step s (AddJob jd) = (case add_job s jd of Inl e \<Rightarrow> s | Inr (accepted, s') \<Rightarrow> s')"
| "step s WorkerCheck = worker_check s"
| "step s WorkerGet = worker_get s"
| "step s (WorkerDispatch fs) = worker_dispatch s fs"
| "step s (ExecuteJob i env) =
     (if i < length (executor s)
      then (case execute_job (s\<lparr>executor := remove_nth i (executor s)\<rparr>) (executor s ! i) env of
              None \<Rightarrow> s
            | Some s' \<Rightarrow> s')
      else s)"
| "step s (RemoveCompleted jid) = remove_completed_job s jid"

definition run :: "job_manager \<Rightarrow> event list \<Rightarrow> job_manager" where
  "run s evs = foldl step s evs"

text \<open>
  What the capacity check of the worker thread maintains: the keys of \<open>active_jobs\<close> are
  distinct, their number is within the limit, and strictly below it while the worker
  stands between its check and the insertion.
\<close>

definition capacity_inv :: "job_manager \<Rightarrow> bool" where
  "capacity_inv s =
     (distinct (map fst (active_jobs s)) \<and>
      int (length (active_jobs s)) \<le> concurrent_jobs s \<and>
      (worker s \<noteq> LoopHead \<longrightarrow> int (length (active_jobs s)) < concurrent_jobs s))"

section \<open>Reporting results: \<open>NodeAgent.process_job_results\<close> in \<open>core/agent.py\<close>\<close>

text \<open>
  What one call of \<open>ServerAPI.send_job_result\<close> does: it returns a success flag or
  raises.
\<close>

datatype report = Reported bool | ReportRaised error

text \<open>
  \<open>process_job_results\<close> runs in the agent's event loop while the worker thread and the
  pool threads go on. It takes a copy of \<open>completed_jobs\<close> and loops over the copy;
  \<open>results_pc\<close> records where it stands: not in the loop, before the \<open>send_job_result\<close> of
  the first remaining entry, or after a report of the given job id has returned true
  and before \<open>remove_completed_job\<close>.
\<close>

datatype results_pc =
    Idle
  | Sending "(string \<times> result_data) list"
  | Acknowledged string "(string \<times> result_data) list"

text \<open>
  The agent with its job manager. \<open>sent\<close> is not a field of the program: it lists the
  calls of \<open>send_job_result\<close> made so far, with what they returned.
\<close>

record agent =
  manager :: job_manager
  results_loop :: results_pc
  sent :: "(string \<times> result_data \<times> report) list"

definition new_agent :: "int \<Rightarrow> bool \<Rightarrow> agent" where
  "new_agent cj cleanup = \<lparr> manager = new_manager cj cleanup, results_loop = Idle, sent = [] \<rparr>"

text \<open>The loop goes on with the remaining entries of the copy, or is over.\<close>

definition next_entry :: "(string \<times> result_data) list \<Rightarrow> results_pc" where
  "next_entry rest = (if rest = [] then Idle else Sending rest)"

text \<open>\<open>completed_jobs = self.job_manager.get_completed_jobs()\<close> and the entry of the loop.\<close>

definition process_job_results_begin :: "agent \<Rightarrow> agent" where
  "process_job_results_begin a =
     (case results_loop a of
        Idle \<Rightarrow> a\<lparr>results_loop := next_entry (get_completed_jobs (manager a))\<rparr>
      | _ \<Rightarrow> a)"

text \<open>
  \<open>success = await self.api.send_job_result(job_id, result)\<close> for the first remaining
  entry of the copy; on a false return or an exception the loop goes on.
\<close>

definition process_job_results_send :: "agent \<Rightarrow> report \<Rightarrow> agent" where
  "process_job_results_send a r =
     (case results_loop a of
        Sending ((jid, res) # rest) \<Rightarrow>
          a\<lparr>sent := sent a @ [(jid, res, r)],
            results_loop := (if r = Reported True then Acknowledged jid rest else next_entry rest)\<rparr>
      | _ \<Rightarrow> a)"

text \<open>\<open>self.job_manager.remove_completed_job(job_id)\<close> after a successful report.\<close>

definition process_job_results_remove :: "agent \<Rightarrow> agent" where
  "process_job_results_remove a =
     (case results_loop a of
        Acknowledged jid rest \<Rightarrow>
          a\<lparr>manager := remove_completed_job (manager a) jid, results_loop := next_entry rest\<rparr>
      | _ \<Rightarrow> a)"

text \<open>
  The steps of the whole agent: a step of the job manager's threads, or a step of
  \<open>process_job_results\<close>.
\<close>

datatype agent_event =
    Manager event
  | ResultsBegin
  | ResultsSend report
  | ResultsRemove

fun agent_step :: "agent \<Rightarrow> agent_event \<Rightarrow> agent" where
  "agent_step a (Manager ev) = a\<lparr>manager := step (manager a) ev\<rparr>"
| "agent_step a ResultsBegin = process_job_results_begin a"
| "agent_step a (ResultsSend r) = process_job_results_send a r"
| "agent_step a ResultsRemove = process_job_results_remove a"

definition agent_run :: "agent \<Rightarrow> agent_event list \<Rightarrow> agent" where
  "agent_run a evs = foldl agent_step a evs"

section \<open>Floating-point arithmetic\<close>










section \<open>The resource monitor: \<open>core/resource_monitor.py\<close>\<close>

record resource_monitor =
  max_cpu_percent :: rat
  max_memory_percent :: rat
  min_free_disk_space_mb :: int
  check_interval_seconds :: int
  current_cpu_percent :: rat
  current_memory_percent :: rat
  current_free_disk_space_mb :: int
  avg_cpu_percent :: rat
  avg_memory_percent :: rat
  cpu_history :: "rat list"
  memory_history :: "rat list"
  history_size :: nat


definition can_accept_jobs :: "resource_monitor \<Rightarrow> bool" where
  "can_accept_jobs m =
     (if avg_cpu_percent m > max_cpu_percent m then False
      else if avg_memory_percent m > max_memory_percent m then False
      else if current_free_disk_space_mb m < min_free_disk_space_mb m then False
      else True)"





section \<open>The scheduling window: \<open>NodeAgent._can_process_jobs_now\<close>\<close>

datatype weekday = Monday | Tuesday | Wednesday | Thursday | Friday | Saturday | Sunday

text \<open>The reading of \<open>datetime.now()\<close> that the check uses.\<close>

record clock =
  weekday :: weekday
  hour :: nat
  minute :: nat

text \<open>\<open>strftime("%A")\<close> in the default (English) locale.\<close>

fun day_name :: "weekday \<Rightarrow> string" where
  "day_name Monday = ''Monday''"
| "day_name Tuesday = ''Tuesday''"
| "day_name Wednesday = ''Wednesday''"
| "day_name Thursday = ''Thursday''"
| "day_name Friday = ''Friday''"
| "day_name Saturday = ''Saturday''"
| "day_name Sunday = ''Sunday''"

definition two_digits :: "nat \<Rightarrow> string" where
  "two_digits n = [''0123456789'' ! (n div 10 mod 10), ''0123456789'' ! (n mod 10)]"

text \<open>\<open>strftime("%H:%M")\<close>, for an hour below 24 and a minute below 60.\<close>

definition current_time :: "clock \<Rightarrow> string" where
  "current_time c = two_digits (hour c) @ '':'' @ two_digits (minute c)"

text \<open>
  The \<open>scheduling\<close> section of the configuration; \<open>None\<close> is a key that is absent, for
  which \<open>get\<close> supplies the default.
\<close>

record scheduling =
  working_hours_only :: "bool option"
  working_days :: "string list"
  working_hours_start :: "string option"
  working_hours_end :: "string option"

definition can_process_jobs_now :: "scheduling \<Rightarrow> clock \<Rightarrow> bool" where
  "can_process_jobs_now sch now =
     (if \<not> (case working_hours_only sch of None \<Rightarrow> False | Some b \<Rightarrow> b) then True
      else if day_name (weekday now) \<notin> set (working_days sch) then False
      else
        (let start_time = (case working_hours_start sch of None \<Rightarrow> ''18:00'' | Some t \<Rightarrow> t);
             end_time = (case working_hours_end sch of None \<Rightarrow> ''08:00'' | Some t \<Rightarrow> t)
         in if end_time < start_time
            then current_time now \<ge> start_time \<or> current_time now \<le> end_time
            else start_time \<le> current_time now \<and> current_time now \<le> end_time))"



section \<open>Admission: \<open>JobManager.add_job\<close>\<close>

lemmas manager_defs =
  add_job_def worker_check_def worker_get_def worker_dispatch_def makedirs_job_dir_def
  dispatch_ok_def
  prepare_job_def create_job_def BaseJob_init_def JobFactory_init_def execute_job_def
  BaseJob_execute_def validate_parameters_def OCRJob_validate_parameters_def
  OCRJob_init_def PDFParseJob_init_def remove_completed_job_def has_capacity_def
  new_manager_def run_def remove_nth_def dict_get_def dict_get_default_def
  dict_contains_def key_in_def completed_result_def failed_result_def Let_def

text \<open>The validations and the job directory on some inputs.\<close>

lemma validate_parameters_examples:
  "OCRJob_validate_parameters [(''input_file'', PyStr ''/data/scan.png'')] = None"
  "OCRJob_validate_parameters [] = Some InputFileRequired"
  "OCRJob_validate_parameters
     [(''input_file'', PyStr ''/data/scan.png''), (''output_format'', PyStr ''xml'')]
   = Some (InvalidOutputFormat (PyStr ''xml''))"
  "PDFParseJob_validate_parameters False
     [(''input_file'', PyStr ''/in/Report.PDF''),
      (''extraction_tasks'', PyList [PyDict [(''task_type'', PyStr ''text'')]])]
   = None"
  "PDFParseJob_validate_parameters False
     [(''input_file'', PyStr ''/in/report.txt''),
      (''extraction_tasks'', PyList [PyDict [(''task_type'', PyStr ''text'')]])]
   = Some NotAPdfDocument"
  "PDFParseJob_validate_parameters False [(''input_file'', PyStr ''/in/report.pdf'')]
   = Some NoExtractionTask"
  "PDFParseJob_validate_parameters False
     [(''input_file'', PyStr ''/in/report.pdf''), (''extraction_tasks'', PyList [PyStr ''text''])]
   = Some (NoAttribute (PyStr ''text'') ''get'')"
  by (simp_all add: OCRJob_validate_parameters_def PDFParseJob_validate_parameters_def
        splitext_ext_def lower_def lower_char_def dict_get_def dict_get_default_def Let_def)

lemma splitext_ext_separators:
  "splitext_ext False [CHR ''a'', CHR 0x5C, CHR ''.'', CHR ''p'', CHR ''d'', CHR ''f''] = ''.pdf''"
  "splitext_ext True [CHR ''a'', CHR 0x5C, CHR ''.'', CHR ''p'', CHR ''d'', CHR ''f''] = []"
  "splitext_ext False ''x.tar.gz'' = ''.gz''"
  "splitext_ext False ''.bashrc'' = []"
  by (simp_all add: splitext_ext_def Let_def)

lemma makedirs_job_dir_nul:
  "makedirs_job_dir None [CHR ''j'', CHR 0x00, CHR ''1''] = Some EmbeddedNullByte"
  "makedirs_job_dir None ''j1'' = None"
  by (simp_all add: makedirs_job_dir_def)

text \<open>
  C10. A job dictionary whose \<open>job_id\<close> is absent or falsy is refused: \<open>add_job\<close> returns
  \<open>False\<close> and the manager, with its queue, active jobs and completed jobs, is as before.
\<close>

theorem add_job_without_job_id:
  assumes "map_of jd ''job_id'' = None \<or> \<not> truthy (dict_get jd ''job_id'')"
  shows "add_job s jd = Inr (False, s)"
proof -
  from assms have "\<not> truthy (dict_get jd ''job_id'')"
    by (auto simp: dict_get_def)
  then show ?thesis
    by (simp add: add_job_def)
qed

theorem add_job_without_job_id_witness:
  "add_job (new_manager 2 True) [(''job_type'', PyStr ''ocr'')]
     = Inr (False, new_manager 2 True)
   \<and> add_job (new_manager 2 True) [(''job_id'', PyStr []), (''job_type'', PyStr ''ocr'')]
     = Inr (False, new_manager 2 True)
   \<and> add_job (new_manager 2 True) [(''job_id'', PyList []), (''job_type'', PyStr ''ocr'')]
     = Inr (False, new_manager 2 True)"
  using add_job_without_job_id [of "[(''job_type'', PyStr ''ocr'')]" "new_manager 2 True"]
    add_job_without_job_id
      [of "[(''job_id'', PyStr []), (''job_type'', PyStr ''ocr'')]" "new_manager 2 True"]
    add_job_without_job_id
      [of "[(''job_id'', PyList []), (''job_type'', PyStr ''ocr'')]" "new_manager 2 True"]
  by (simp add: dict_get_def)

text \<open>
  C4. A call of \<open>add_job\<close> whose \<open>job_id\<close> is a key of \<open>active_jobs\<close> or of \<open>completed_jobs\<close>
  returns \<open>False\<close> and leaves the manager, with its queue, active jobs and completed
  jobs, as it was. This holds in every state, hence along every sequence of calls.
\<close>

theorem add_job_rejects_known_job:
  assumes "dict_get jd ''job_id'' = PyStr i"
    and "dict_contains (active_jobs s) i \<or> dict_contains (completed_jobs s) i"
  shows "add_job s jd = Inr (False, s)"
proof -
  have ka: "key_in (PyStr i) (active_jobs s) = Inr (dict_contains (active_jobs s) i)"
    and kc: "key_in (PyStr i) (completed_jobs s) = Inr (dict_contains (completed_jobs s) i)"
    by (simp_all add: key_in_def)
  from assms show ?thesis
    by (auto simp: add_job_def Let_def ka kc split: bool.splits)
qed

theorem add_job_rejects_known_job_witness:
  "dict_contains
     (active_jobs (run (new_manager 2 True)
        [AddJob [(''job_id'', PyStr ''a''), (''job_type'', PyStr ''ocr'')],
         WorkerCheck, WorkerGet, WorkerDispatch dispatch_ok]))
     ''a''
   \<and> add_job
       (run (new_manager 2 True)
          [AddJob [(''job_id'', PyStr ''a''), (''job_type'', PyStr ''ocr'')],
           WorkerCheck, WorkerGet, WorkerDispatch dispatch_ok])
       [(''job_id'', PyStr ''a''), (''job_type'', PyStr ''ocr'')]
     = Inr (False,
        run (new_manager 2 True)
          [AddJob [(''job_id'', PyStr ''a''), (''job_type'', PyStr ''ocr'')],
           WorkerCheck, WorkerGet, WorkerDispatch dispatch_ok])"
proof -
  have a: "dict_get [(''job_id'', PyStr ''a''), (''job_type'', PyStr ''ocr'')] ''job_id''
             = PyStr ''a''"
    by (simp add: dict_get_def)
  have b: "dict_contains
     (active_jobs (run (new_manager 2 True)
        [AddJob [(''job_id'', PyStr ''a''), (''job_type'', PyStr ''ocr'')],
         WorkerCheck, WorkerGet, WorkerDispatch dispatch_ok]))
     ''a''"
    by (simp add: manager_defs)
  from b show ?thesis
    using add_job_rejects_known_job [OF a, of "run (new_manager 2 True)
             [AddJob [(''job_id'', PyStr ''a''), (''job_type'', PyStr ''ocr'')],
              WorkerCheck, WorkerGet, WorkerDispatch dispatch_ok]"]
    by blast
qed

section \<open>The resource gate: \<open>ResourceMonitor.can_accept_jobs\<close>\<close>

text \<open>
  C3. \<open>can_accept_jobs\<close> returns false exactly when the averaged CPU percentage is
  strictly above \<open>max_cpu_percent\<close>, or the averaged memory percentage is strictly above
  \<open>max_memory_percent\<close>, or the latest free disk space is strictly below
  \<open>min_free_disk_space_mb\<close>; otherwise it returns true.
\<close>

theorem can_accept_jobs_thresholds:
  "can_accept_jobs m =
     (\<not> (avg_cpu_percent m > max_cpu_percent m
         \<or> avg_memory_percent m > max_memory_percent m
         \<or> current_free_disk_space_mb m < min_free_disk_space_mb m))"
  by (simp add: can_accept_jobs_def)

section \<open>Capacity: the worker loop and the thread pool\<close>

lemma length_update_le: "length (AList.update k v al) \<le> Suc (length al)"
  by (induction al) auto

lemma add_job_frame:
  assumes "add_job s jd = Inr (accepted, s')"
  shows "active_jobs s' = active_jobs s" and "completed_jobs s' = completed_jobs s"
    and "concurrent_jobs s' = concurrent_jobs s" and "worker s' = worker s"
    and "executor s' = executor s"
  using assms
  by (auto simp: add_job_def Let_def split: if_splits sum.splits bool.splits)

lemma step_AddJob_frame:
  "active_jobs (step s (AddJob jd)) = active_jobs s"
  "completed_jobs (step s (AddJob jd)) = completed_jobs s"
  "concurrent_jobs (step s (AddJob jd)) = concurrent_jobs s"
  "worker (step s (AddJob jd)) = worker s"
  "executor (step s (AddJob jd)) = executor s"
proof -
  show "active_jobs (step s (AddJob jd)) = active_jobs s"
    by (cases "add_job s jd") (auto dest: add_job_frame(1))
  show "completed_jobs (step s (AddJob jd)) = completed_jobs s"
    by (cases "add_job s jd") (auto dest: add_job_frame(2))
  show "concurrent_jobs (step s (AddJob jd)) = concurrent_jobs s"
    by (cases "add_job s jd") (auto dest: add_job_frame(3))
  show "worker (step s (AddJob jd)) = worker s"
    by (cases "add_job s jd") (auto dest: add_job_frame(4))
  show "executor (step s (AddJob jd)) = executor s"
    by (cases "add_job s jd") (auto dest: add_job_frame(5))
qed

lemma capacity_inv_add_job: "capacity_inv s \<Longrightarrow> capacity_inv (step s (AddJob jd))"
  by (simp add: capacity_inv_def step_AddJob_frame del: step.simps(1))

lemma capacity_inv_worker_check: "capacity_inv s \<Longrightarrow> capacity_inv (worker_check s)"
  by (auto simp: capacity_inv_def worker_check_def has_capacity_def split: worker_pc.splits)

lemma capacity_inv_worker_get: "capacity_inv s \<Longrightarrow> capacity_inv (worker_get s)"
  by (auto simp: capacity_inv_def worker_get_def split: worker_pc.splits list.splits)

lemma capacity_inv_worker_dispatch: "capacity_inv s \<Longrightarrow> capacity_inv (worker_dispatch s fs)"
proof -
  assume inv: "capacity_inv s"
  show ?thesis
  proof (cases "worker s")
    case (Dequeued jd)
    with inv have lt: "int (length (active_jobs s)) < concurrent_jobs s"
      and d: "distinct (map fst (active_jobs s))"
      by (simp_all add: capacity_inv_def)
    have le: "int (length (AList.update k v (active_jobs s))) \<le> concurrent_jobs s" for k v
    proof -
      have "length (AList.update k v (active_jobs s)) \<le> Suc (length (active_jobs s))"
        by (rule length_update_le)
      then have "int (length (AList.update k v (active_jobs s)))
                   \<le> int (length (active_jobs s)) + 1"
        by simp
      with lt show ?thesis by linarith
    qed
    show ?thesis
      using Dequeued inv d le
      by (auto simp: capacity_inv_def worker_dispatch_def Let_def distinct_update
               split: pyval.splits sum.splits option.splits submission.splits)
  qed (use inv in \<open>simp_all add: worker_dispatch_def\<close>)
qed

lemma capacity_inv_execute_job:
  "capacity_inv s \<Longrightarrow> execute_job (s\<lparr>executor := ex\<rparr>) j h = Some s' \<Longrightarrow> capacity_inv s'"
proof -
  assume inv: "capacity_inv s" and ex: "execute_job (s\<lparr>executor := ex\<rparr>) j h = Some s'"
  have le: "length (AList.delete (job_id j) (active_jobs s)) \<le> length (active_jobs s)"
    by (rule length_delete_le)
  have d: "distinct (map fst (AList.delete (job_id j) (active_jobs s)))"
    using inv by (simp add: capacity_inv_def distinct_delete)
  show ?thesis
    using inv ex le d
    by (auto simp: capacity_inv_def execute_job_def split: outcome.splits)
qed

lemma capacity_inv_remove_completed: "capacity_inv s \<Longrightarrow> capacity_inv (remove_completed_job s jid)"
  by (simp add: capacity_inv_def remove_completed_job_def)

lemma capacity_inv_step: "capacity_inv s \<Longrightarrow> capacity_inv (step s ev)"
proof (cases ev)
  case (ExecuteJob i h)
  assume inv: "capacity_inv s"
  show ?thesis
    using inv ExecuteJob capacity_inv_execute_job [OF inv]
    by (auto split: option.splits)
qed (simp_all add: capacity_inv_add_job capacity_inv_worker_check capacity_inv_worker_get
       capacity_inv_worker_dispatch capacity_inv_remove_completed del: step.simps(1))

lemma capacity_inv_run: "capacity_inv s \<Longrightarrow> capacity_inv (run s evs)"
  unfolding run_def by (induction evs arbitrary: s) (simp_all add: capacity_inv_step)

lemma concurrent_jobs_step: "concurrent_jobs (step s ev) = concurrent_jobs s"
  by (cases ev)
     (auto simp: worker_check_def worker_get_def worker_dispatch_def
        execute_job_def remove_completed_job_def
        split: worker_pc.splits list.splits pyval.splits sum.splits outcome.splits option.splits
        dest: add_job_frame(3))

lemma concurrent_jobs_run: "concurrent_jobs (run s evs) = concurrent_jobs s"
  unfolding run_def by (induction evs arbitrary: s) (simp_all add: concurrent_jobs_step)

lemma capacity_inv_new: "0 < cj \<Longrightarrow> capacity_inv (new_manager cj cl)"
  by (simp add: capacity_inv_def new_manager_def)

text \<open>
  C5. From a freshly constructed manager, after any sequence of atomic steps of the
  agent loop, the worker thread and the pool threads, \<open>active_job_count\<close> is at most
  \<open>concurrent_jobs\<close>: the worker inserts a job only after \<open>has_capacity\<close> held, and in between
  other threads only remove entries. The limit itself never changes and the keys of
  \<open>active_jobs\<close> stay distinct, so the count is the number of active job ids.
\<close>

theorem active_jobs_within_limit:
  assumes "JobManager_init work_dir cj cl = Inr s0"
  shows "active_job_count (run s0 evs) \<le> concurrent_jobs (run s0 evs)
         \<and> concurrent_jobs (run s0 evs) = cj
         \<and> distinct (map fst (active_jobs (run s0 evs)))"
proof -
  from assms have pos: "0 < cj" and s0: "s0 = new_manager cj cl"
    by (auto simp: JobManager_init_def split: if_splits option.splits)
  have "capacity_inv (run s0 evs)"
    unfolding s0 by (rule capacity_inv_run [OF capacity_inv_new [OF pos]])
  moreover have "concurrent_jobs (run s0 evs) = cj"
    by (simp add: concurrent_jobs_run s0 new_manager_def)
  ultimately show ?thesis
    by (simp add: capacity_inv_def active_job_count_def)
qed

theorem active_jobs_within_limit_witness:
  "JobManager_init None 1 True = Inr (new_manager 1 True)
   \<and> active_job_count
        (run (new_manager 1 True)
           [AddJob [(''job_id'', PyStr ''a''), (''job_type'', PyStr ''ocr'')],
            AddJob [(''job_id'', PyStr ''b''), (''job_type'', PyStr ''pdf_parse'')],
            WorkerCheck, WorkerGet, WorkerDispatch dispatch_ok, WorkerCheck, WorkerGet, WorkerDispatch dispatch_ok])
       \<le> concurrent_jobs
           (run (new_manager 1 True)
              [AddJob [(''job_id'', PyStr ''a''), (''job_type'', PyStr ''ocr'')],
               AddJob [(''job_id'', PyStr ''b''), (''job_type'', PyStr ''pdf_parse'')],
               WorkerCheck, WorkerGet, WorkerDispatch dispatch_ok, WorkerCheck, WorkerGet, WorkerDispatch dispatch_ok])
   \<and> concurrent_jobs
        (run (new_manager 1 True)
           [AddJob [(''job_id'', PyStr ''a''), (''job_type'', PyStr ''ocr'')],
            AddJob [(''job_id'', PyStr ''b''), (''job_type'', PyStr ''pdf_parse'')],
            WorkerCheck, WorkerGet, WorkerDispatch dispatch_ok, WorkerCheck, WorkerGet, WorkerDispatch dispatch_ok])
       = 1"
proof -
  have init: "JobManager_init None 1 True = Inr (new_manager 1 True)"
    by (simp add: JobManager_init_def)
  from active_jobs_within_limit [OF init] init show ?thesis
    by blast
qed

section \<open>Duplicate assignments\<close>

text \<open>
  C1. The claim: a job id is in at most one of the queue, \<open>active_jobs\<close> and
  \<open>completed_jobs\<close>, and an assignment re-sent while its id is anywhere in the system,
  the queue included, is rejected. \<open>add_job\<close> looks the id up in \<open>active_jobs\<close> and
  \<open>completed_jobs\<close> only. With one slot and the assignment \<open>{"job_id": "a", "job_type":
  "ocr"}\<close> sent twice: both calls return \<open>True\<close>, the queue holds the id twice, and after
  the first copy has run (its result, a failed one for want of an input file, is stored)
  and the second has been dispatched the id is a key of \<open>active_jobs\<close> and of
  \<open>completed_jobs\<close> at once.
\<close>

theorem add_job_admits_queued_duplicate:
  "add_job (new_manager 1 True) [(''job_id'', PyStr ''a''), (''job_type'', PyStr ''ocr'')]
     = Inr (True,
            (new_manager 1 True)
              \<lparr>job_queue := [[(''job_id'', PyStr ''a''), (''job_type'', PyStr ''ocr'')]]\<rparr>)
   \<and> add_job
       ((new_manager 1 True)
          \<lparr>job_queue := [[(''job_id'', PyStr ''a''), (''job_type'', PyStr ''ocr'')]]\<rparr>)
       [(''job_id'', PyStr ''a''), (''job_type'', PyStr ''ocr'')]
     = Inr (True,
            (new_manager 1 True)
              \<lparr>job_queue := [[(''job_id'', PyStr ''a''), (''job_type'', PyStr ''ocr'')],
                             [(''job_id'', PyStr ''a''), (''job_type'', PyStr ''ocr'')]]\<rparr>)
   \<and> map (\<lambda>d. dict_get d ''job_id'')
        (job_queue (run (new_manager 1 True)
           [AddJob [(''job_id'', PyStr ''a''), (''job_type'', PyStr ''ocr'')],
            AddJob [(''job_id'', PyStr ''a''), (''job_type'', PyStr ''ocr'')]]))
       = [PyStr ''a'', PyStr ''a'']
   \<and> dict_contains
        (active_jobs (run (new_manager 1 True)
           [AddJob [(''job_id'', PyStr ''a''), (''job_type'', PyStr ''ocr'')],
            AddJob [(''job_id'', PyStr ''a''), (''job_type'', PyStr ''ocr'')],
            WorkerCheck, WorkerGet, WorkerDispatch dispatch_ok,
            ExecuteJob 0 \<lparr>nt_paths = False, process_job = Returns (PyStr ''text'')\<rparr>,
            WorkerCheck, WorkerGet, WorkerDispatch dispatch_ok]))
        ''a''
   \<and> dict_contains
        (completed_jobs (run (new_manager 1 True)
           [AddJob [(''job_id'', PyStr ''a''), (''job_type'', PyStr ''ocr'')],
            AddJob [(''job_id'', PyStr ''a''), (''job_type'', PyStr ''ocr'')],
            WorkerCheck, WorkerGet, WorkerDispatch dispatch_ok,
            ExecuteJob 0 \<lparr>nt_paths = False, process_job = Returns (PyStr ''text'')\<rparr>,
            WorkerCheck, WorkerGet, WorkerDispatch dispatch_ok]))
        ''a''"
  by (simp add: manager_defs)

section \<open>Execution: \<open>BaseJob.execute\<close> and \<open>JobManager._execute_job\<close>\<close>

text \<open>
  C2, as claimed: a job whose \<open>timeout_seconds\<close> elapse without the execution completing
  yields a failed result with a timeout error. Against it: the assignment
  \<open>{"job_id": "j1", "job_type": "ocr", "timeout_seconds": 1, "parameters": {"input_file":
  "/data/scan.png"}}\<close>, which passes \<open>OCRJob._validate_parameters\<close>, with a \<open>_process_job\<close>
  that never returns. \<open>execute\<close> never returns, \<open>_execute_job\<close> never gets to the
  dictionaries, and whatever else happens later the task stays in the pool,
  \<open>completed_jobs\<close> stays empty and the job stays in \<open>active_jobs\<close>.
\<close>

theorem timeout_not_enforced_counterexample:
  "timeout_seconds
     (BaseJob_init OCRJob ''j1''
        [(''job_id'', PyStr ''j1''), (''job_type'', PyStr ''ocr''),
          (''timeout_seconds'', PyInt 1),
          (''parameters'', PyDict [(''input_file'', PyStr ''/data/scan.png'')])]) = PyInt 1
   \<and> validate_parameters False
       (BaseJob_init OCRJob ''j1''
          [(''job_id'', PyStr ''j1''), (''job_type'', PyStr ''ocr''),
          (''timeout_seconds'', PyInt 1),
          (''parameters'', PyDict [(''input_file'', PyStr ''/data/scan.png'')])]) = None
   \<and> BaseJob_execute
       (BaseJob_init OCRJob ''j1''
          [(''job_id'', PyStr ''j1''), (''job_type'', PyStr ''ocr''),
          (''timeout_seconds'', PyInt 1),
          (''parameters'', PyDict [(''input_file'', PyStr ''/data/scan.png'')])])
       \<lparr>nt_paths = False, process_job = NeverReturns\<rparr> = NeverReturns
   \<and> completed_jobs
       (run (new_manager 2 True)
          [AddJob [(''job_id'', PyStr ''j1''), (''job_type'', PyStr ''ocr''),
          (''timeout_seconds'', PyInt 1),
          (''parameters'', PyDict [(''input_file'', PyStr ''/data/scan.png'')])],
           WorkerCheck, WorkerGet, WorkerDispatch dispatch_ok,
           ExecuteJob 0 \<lparr>nt_paths = False, process_job = NeverReturns\<rparr>]) = []
   \<and> dict_contains
       (active_jobs
          (run (new_manager 2 True)
             [AddJob [(''job_id'', PyStr ''j1''), (''job_type'', PyStr ''ocr''),
          (''timeout_seconds'', PyInt 1),
          (''parameters'', PyDict [(''input_file'', PyStr ''/data/scan.png'')])],
              WorkerCheck, WorkerGet, WorkerDispatch dispatch_ok,
              ExecuteJob 0 \<lparr>nt_paths = False, process_job = NeverReturns\<rparr>]))
       ''j1''
   \<and> map job_id
       (executor
          (run (new_manager 2 True)
             [AddJob [(''job_id'', PyStr ''j1''), (''job_type'', PyStr ''ocr''),
          (''timeout_seconds'', PyInt 1),
          (''parameters'', PyDict [(''input_file'', PyStr ''/data/scan.png'')])],
              WorkerCheck, WorkerGet, WorkerDispatch dispatch_ok,
              ExecuteJob 0 \<lparr>nt_paths = False, process_job = NeverReturns\<rparr>])) = [''j1'']"
  by (simp add: manager_defs)

text \<open>
  C2, amended. \<open>timeout_seconds\<close> is stored on the job and never consulted: the outcome of
  \<open>execute\<close> is the same for every value of it. For a job that passes validation, a
  \<open>_process_job\<close> that raises an exception derived from \<open>Exception\<close> gives a failed result
  carrying that exception, one that returns gives a completed result, one that raises
  any other exception gives no result and leaves the job in \<open>active_jobs\<close>, and one that
  never returns gives no result at all: \<open>execute\<close> does not return and \<open>_execute_job\<close>
  never updates the manager.
\<close>

theorem execute_has_no_timeout:
  assumes "validate_parameters (nt_paths env) j = None"
  shows "BaseJob_execute (j\<lparr>timeout_seconds := t\<rparr>) env = BaseJob_execute j env
         \<and> (process_job env = NeverReturns \<longrightarrow>
              BaseJob_execute j env = NeverReturns \<and> execute_job s j env = None)
         \<and> (process_job env = Raises e \<longrightarrow>
              BaseJob_execute j env = Returns (failed_result j e)
              \<and> status (failed_result j e) = ''failed''
              \<and> error_message (failed_result j e) = Some e)
         \<and> (process_job env = Exits \<longrightarrow>
              BaseJob_execute j env = Exits \<and> execute_job s j env = Some s)
         \<and> (process_job env = Returns r \<longrightarrow>
              BaseJob_execute j env = Returns (completed_result r))"
proof -
  have v: "validate_parameters (nt_paths env) (j\<lparr>timeout_seconds := t\<rparr>)
             = validate_parameters (nt_paths env) j"
    by (simp add: validate_parameters_def split: pyval.splits)
  have f: "failed_result (j\<lparr>timeout_seconds := t\<rparr>) e' = failed_result j e'" for e'
    by (simp add: failed_result_def)
  show ?thesis
    using assms
    by (simp add: BaseJob_execute_def execute_job_def v f failed_result_def
          split: outcome.splits)
qed

theorem execute_has_no_timeout_witness:
  "BaseJob_execute
     (BaseJob_init OCRJob ''j1''
        [(''job_id'', PyStr ''j1''), (''job_type'', PyStr ''ocr''),
          (''timeout_seconds'', PyInt 1),
          (''parameters'', PyDict [(''input_file'', PyStr ''/data/scan.png'')])])
     \<lparr>nt_paths = False, process_job = NeverReturns\<rparr> = NeverReturns
   \<and> execute_job (new_manager 2 True)
       (BaseJob_init OCRJob ''j1''
          [(''job_id'', PyStr ''j1''), (''job_type'', PyStr ''ocr''),
          (''timeout_seconds'', PyInt 1),
          (''parameters'', PyDict [(''input_file'', PyStr ''/data/scan.png'')])])
       \<lparr>nt_paths = False, process_job = NeverReturns\<rparr> = None"
proof -
  have v: "validate_parameters (nt_paths \<lparr>nt_paths = False, process_job = NeverReturns\<rparr>)
       (BaseJob_init OCRJob ''j1''
          [(''job_id'', PyStr ''j1''), (''job_type'', PyStr ''ocr''),
          (''timeout_seconds'', PyInt 1),
          (''parameters'', PyDict [(''input_file'', PyStr ''/data/scan.png'')])]) = None"
    by (simp add: manager_defs)
  show ?thesis
    using execute_has_no_timeout
      [OF v, where s = "new_manager 2 True"]
    by simp
qed

section \<open>Jobs that fail before or during validation\<close>

text \<open>
  C7, as claimed: a job that fails validation, an unknown \<open>job_type\<close> included, gets a
  failed result recorded at once and never occupies an execution slot. Against it, with
  one slot: the assignment \<open>{"job_id": "j1", "job_type": "bogus"}\<close> is dequeued and
  dropped, and nothing is recorded for it; the assignment \<open>{"job_id": "j2", "job_type":
  "ocr"}\<close>, which fails \<open>OCRJob._validate_parameters\<close> for want of an input file, is in
  \<open>active_jobs\<close> and in the thread pool after its dispatch, with no result recorded, and
  the manager has no capacity left.
\<close>

theorem validation_failure_counterexample:
  "completed_jobs
     (run (new_manager 1 True)
        [AddJob [(''job_id'', PyStr ''j1''), (''job_type'', PyStr ''bogus'')],
         WorkerCheck, WorkerGet, WorkerDispatch dispatch_ok]) = []
   \<and> job_queue
       (run (new_manager 1 True)
          [AddJob [(''job_id'', PyStr ''j1''), (''job_type'', PyStr ''bogus'')],
           WorkerCheck, WorkerGet, WorkerDispatch dispatch_ok]) = []
   \<and> active_jobs
       (run (new_manager 1 True)
          [AddJob [(''job_id'', PyStr ''j1''), (''job_type'', PyStr ''bogus'')],
           WorkerCheck, WorkerGet, WorkerDispatch dispatch_ok]) = []
   \<and> validate_parameters False
       (BaseJob_init OCRJob ''j2'' [(''job_id'', PyStr ''j2''), (''job_type'', PyStr ''ocr'')])
     = Some InputFileRequired
   \<and> active_jobs
       (run (new_manager 1 True)
          [AddJob [(''job_id'', PyStr ''j2''), (''job_type'', PyStr ''ocr'')],
           WorkerCheck, WorkerGet, WorkerDispatch dispatch_ok])
     = [(''j2'',
         BaseJob_init OCRJob ''j2'' [(''job_id'', PyStr ''j2''), (''job_type'', PyStr ''ocr'')])]
   \<and> executor
       (run (new_manager 1 True)
          [AddJob [(''job_id'', PyStr ''j2''), (''job_type'', PyStr ''ocr'')],
           WorkerCheck, WorkerGet, WorkerDispatch dispatch_ok])
     = [BaseJob_init OCRJob ''j2'' [(''job_id'', PyStr ''j2''), (''job_type'', PyStr ''ocr'')]]
   \<and> completed_jobs
       (run (new_manager 1 True)
          [AddJob [(''job_id'', PyStr ''j2''), (''job_type'', PyStr ''ocr'')],
           WorkerCheck, WorkerGet, WorkerDispatch dispatch_ok]) = []
   \<and> \<not> has_capacity
       (run (new_manager 1 True)
          [AddJob [(''job_id'', PyStr ''j2''), (''job_type'', PyStr ''ocr'')],
           WorkerCheck, WorkerGet, WorkerDispatch dispatch_ok])"
  by (simp add: manager_defs)

text \<open>
  C7, amended. Take a dequeued job with a string id. A \<open>job_type\<close> that is missing, falsy
  or not in the registry makes the preparation of the job raise. When the job directory
  cannot be created, or the preparation raises, the worker drops the job: it never
  enters \<open>active_jobs\<close> or the thread pool and no result is recorded for it (the failure
  is only logged). When the directory is created and the job instance is built, the job
  enters \<open>active_jobs\<close> without any validation, and the thread pool as well unless
  \<open>submit\<close> raises before queueing the task. When
  \<open>_validate_parameters\<close> then raises inside \<open>execute\<close>, \<open>_execute_job\<close> stores a failed result
  with the exception in \<open>completed_jobs\<close> and removes the job from \<open>active_jobs\<close>.
\<close>

theorem validation_failure_handling:
  assumes "worker s = Dequeued jd" and "dict_get jd ''job_id'' = PyStr i"
  shows "(\<not> truthy (dict_get jd ''job_type'')
            \<or> (case dict_get jd ''job_type'' of
                  PyStr t \<Rightarrow> map_of (job_classes s) t = None
                | _ \<Rightarrow> True) \<longrightarrow>
            prepare_job s (init_dirs fs) i jd =
              Inl (if \<not> truthy (dict_get jd ''job_type'') then MissingJobType
                   else if \<not> hashable (dict_get jd ''job_type'')
                   then Unhashable (dict_get jd ''job_type'')
                   else UnknownJobType (dict_get jd ''job_type'')))
         \<and> (makedirs_job_dir (job_dir fs) i = Some e \<longrightarrow>
              worker_dispatch s fs = s\<lparr>worker := LoopHead\<rparr>)
         \<and> (prepare_job s (init_dirs fs) i jd = Inl e \<longrightarrow>
              worker_dispatch s fs = s\<lparr>worker := LoopHead\<rparr>)
         \<and> (makedirs_job_dir (job_dir fs) i = None
              \<and> prepare_job s (init_dirs fs) i jd = Inr j \<and> submit fs = Submitted \<longrightarrow>
              worker_dispatch s fs =
                s\<lparr>active_jobs := AList.update i j (active_jobs s),
                  executor := executor s @ [j],
                  worker := LoopHead\<rparr>)
         \<and> (makedirs_job_dir (job_dir fs) i = None
              \<and> prepare_job s (init_dirs fs) i jd = Inr j
              \<and> submit fs = SubmitRaised queued \<longrightarrow>
              worker_dispatch s fs =
                s\<lparr>active_jobs := AList.update i j (active_jobs s),
                  executor := (if queued then executor s @ [j] else executor s),
                  worker := LoopHead\<rparr>)
         \<and> (validate_parameters (nt_paths env) j' = Some err \<longrightarrow>
              execute_job s' j' env =
                Some (s'\<lparr>completed_jobs :=
                           AList.update (job_id j') (failed_result j' err) (completed_jobs s'),
                         active_jobs := AList.delete (job_id j') (active_jobs s')\<rparr>))"
proof -
  have a: "\<not> truthy (dict_get jd ''job_type'')
            \<or> (case dict_get jd ''job_type'' of
                  PyStr t \<Rightarrow> map_of (job_classes s) t = None
                | _ \<Rightarrow> True) \<longrightarrow>
            prepare_job s (init_dirs fs) i jd =
              Inl (if \<not> truthy (dict_get jd ''job_type'') then MissingJobType
                   else if \<not> hashable (dict_get jd ''job_type'')
                   then Unhashable (dict_get jd ''job_type'')
                   else UnknownJobType (dict_get jd ''job_type''))"
    by (auto simp: prepare_job_def create_job_def Let_def split: pyval.splits option.splits)
  have b: "makedirs_job_dir (job_dir fs) i = Some e \<longrightarrow>
              worker_dispatch s fs = s\<lparr>worker := LoopHead\<rparr>"
    using assms by (simp add: worker_dispatch_def)
  have c: "prepare_job s (init_dirs fs) i jd = Inl e \<longrightarrow>
              worker_dispatch s fs = s\<lparr>worker := LoopHead\<rparr>"
    using assms by (simp add: worker_dispatch_def split: option.splits)
  have d: "makedirs_job_dir (job_dir fs) i = None
              \<and> prepare_job s (init_dirs fs) i jd = Inr j \<and> submit fs = Submitted \<longrightarrow>
              worker_dispatch s fs =
                s\<lparr>active_jobs := AList.update i j (active_jobs s),
                  executor := executor s @ [j],
                  worker := LoopHead\<rparr>"
    using assms by (simp add: worker_dispatch_def)
  have d': "makedirs_job_dir (job_dir fs) i = None
              \<and> prepare_job s (init_dirs fs) i jd = Inr j
              \<and> submit fs = SubmitRaised queued \<longrightarrow>
              worker_dispatch s fs =
                s\<lparr>active_jobs := AList.update i j (active_jobs s),
                  executor := (if queued then executor s @ [j] else executor s),
                  worker := LoopHead\<rparr>"
    using assms by (simp add: worker_dispatch_def)
  have e: "validate_parameters (nt_paths env) j' = Some err \<longrightarrow>
              execute_job s' j' env =
                Some (s'\<lparr>completed_jobs :=
                           AList.update (job_id j') (failed_result j' err) (completed_jobs s'),
                         active_jobs := AList.delete (job_id j') (active_jobs s')\<rparr>)"
    by (simp add: execute_job_def BaseJob_execute_def)
  from a b c d d' e show ?thesis by blast
qed

theorem validation_failure_handling_witness:
  "worker_dispatch
     (run (new_manager 1 True)
        [AddJob [(''job_id'', PyStr ''j1''), (''job_type'', PyStr ''bogus'')],
         WorkerCheck, WorkerGet])
     dispatch_ok
   = (run (new_manager 1 True)
        [AddJob [(''job_id'', PyStr ''j1''), (''job_type'', PyStr ''bogus'')],
         WorkerCheck, WorkerGet])\<lparr>worker := LoopHead\<rparr>
   \<and> execute_job (new_manager 1 True)
       (BaseJob_init OCRJob ''j2''
          [(''job_id'', PyStr ''j2''), (''job_type'', PyStr ''ocr'')])
       \<lparr>nt_paths = False, process_job = Returns PyNone\<rparr>
     = Some ((new_manager 1 True)
         \<lparr>completed_jobs :=
            AList.update
              (job_id (BaseJob_init OCRJob ''j2''
                 [(''job_id'', PyStr ''j2''), (''job_type'', PyStr ''ocr'')]))
              (failed_result
                 (BaseJob_init OCRJob ''j2''
                    [(''job_id'', PyStr ''j2''), (''job_type'', PyStr ''ocr'')])
                 InputFileRequired)
              (completed_jobs (new_manager 1 True)),
          active_jobs :=
            AList.delete
              (job_id (BaseJob_init OCRJob ''j2''
                 [(''job_id'', PyStr ''j2''), (''job_type'', PyStr ''ocr'')]))
              (active_jobs (new_manager 1 True))\<rparr>)"
proof -
  have w: "worker
     (run (new_manager 1 True)
        [AddJob [(''job_id'', PyStr ''j1''), (''job_type'', PyStr ''bogus'')],
         WorkerCheck, WorkerGet])
     = Dequeued [(''job_id'', PyStr ''j1''), (''job_type'', PyStr ''bogus'')]"
    by (simp add: manager_defs)
  have i: "dict_get [(''job_id'', PyStr ''j1''), (''job_type'', PyStr ''bogus'')] ''job_id''
     = PyStr ''j1''"
    by (simp add: dict_get_def)
  have p: "prepare_job
     (run (new_manager 1 True)
        [AddJob [(''job_id'', PyStr ''j1''), (''job_type'', PyStr ''bogus'')],
         WorkerCheck, WorkerGet])
     (init_dirs dispatch_ok)
     ''j1'' [(''job_id'', PyStr ''j1''), (''job_type'', PyStr ''bogus'')]
     = Inl (UnknownJobType (PyStr ''bogus''))"
    by (simp add: manager_defs)
  have v: "validate_parameters
     (nt_paths \<lparr>nt_paths = False, process_job = Returns PyNone\<rparr>)
     (BaseJob_init OCRJob ''j2'' [(''job_id'', PyStr ''j2''), (''job_type'', PyStr ''ocr'')])
     = Some InputFileRequired"
    by (simp add: manager_defs)
  from validation_failure_handling
    [OF w i,
     where e = "UnknownJobType (PyStr ''bogus'')"
       and fs = dispatch_ok
       and env = "\<lparr>nt_paths = False, process_job = Returns PyNone\<rparr>"
       and err = InputFileRequired
       and s' = "new_manager 1 True"
       and j' = "BaseJob_init OCRJob ''j2''
                   [(''job_id'', PyStr ''j2''), (''job_type'', PyStr ''ocr'')]"]
    p v
  show ?thesis by blast
qed

section \<open>Reporting and acknowledging results\<close>

lemmas agent_defs =
  agent_run_def new_agent_def process_job_results_begin_def process_job_results_send_def
  process_job_results_remove_def
  next_entry_def get_completed_jobs_def

text \<open>
  What holds of the reporting loop: a key leaves \<open>completed_jobs\<close> only through
  \<open>remove_completed_job\<close>, which the loop calls only in the state it reaches when
  \<open>send_job_result\<close> has returned true for that job id.
\<close>

lemma delete_as_filter: "AList.delete k al = filter (\<lambda>p. fst p \<noteq> k) al"
  by (induction al) auto

lemma completed_key_step:
  assumes "dict_contains (completed_jobs s) k" and "ev \<noteq> RemoveCompleted k"
  shows "dict_contains (completed_jobs (step s ev)) k"
proof (cases ev)
  case (AddJob jd)
  with assms show ?thesis by (simp add: step_AddJob_frame del: step.simps(1))
next
  case WorkerCheck
  with assms show ?thesis by (simp add: worker_check_def split: worker_pc.splits)
next
  case WorkerGet
  with assms show ?thesis
    by (simp add: worker_get_def split: worker_pc.splits list.splits)
next
  case (WorkerDispatch fs)
  with assms show ?thesis
    by (simp add: worker_dispatch_def Let_def
          split: worker_pc.splits pyval.splits sum.splits option.splits)
next
  case (ExecuteJob i env)
  with assms show ?thesis
    by (auto simp: execute_job_def dict_contains_def dom_update
          split: outcome.splits option.splits)
next
  case (RemoveCompleted k')
  with assms have "k' \<noteq> k" by simp
  with assms(1) RemoveCompleted show ?thesis
    by (auto simp: remove_completed_job_def dict_contains_def delete_as_filter)
qed

lemma completed_key_removed_by_acknowledgement:
  assumes "dict_contains (completed_jobs (manager a)) k"
    and "\<not> dict_contains (completed_jobs (manager (agent_step a ev))) k"
  shows "ev = Manager (RemoveCompleted k)
         \<or> (ev = ResultsRemove \<and> (\<exists>rest. results_loop a = Acknowledged k rest))"
proof (cases ev)
  case (Manager mev)
  with assms completed_key_step [of "manager a" k mev] show ?thesis
    by auto
next
  case ResultsBegin
  with assms show ?thesis
    by (simp add: process_job_results_begin_def split: results_pc.splits)
next
  case (ResultsSend r)
  with assms show ?thesis
    by (simp add: process_job_results_send_def split: results_pc.splits list.splits prod.splits)
next
  case ResultsRemove
  show ?thesis
  proof (cases "results_loop a")
    case (Acknowledged jid rest)
    have "jid = k"
    proof (rule ccontr)
      assume "jid \<noteq> k"
      then have "dict_contains (completed_jobs (remove_completed_job (manager a) jid)) k"
        using assms(1)
        by (auto simp: remove_completed_job_def dict_contains_def delete_as_filter)
      with assms(2) ResultsRemove Acknowledged show False
        by (simp add: process_job_results_remove_def)
    qed
    with ResultsRemove Acknowledged show ?thesis
      by simp
  qed (use assms ResultsRemove in \<open>simp_all add: process_job_results_remove_def\<close>)
qed

lemma acknowledged_after_success:
  assumes "results_loop (agent_step a ev) = Acknowledged k rest"
    and "results_loop a \<noteq> Acknowledged k rest"
  shows "ev = ResultsSend (Reported True)
         \<and> (\<exists>res. results_loop a = Sending ((k, res) # rest))
         \<and> (\<exists>res. sent (agent_step a ev) = sent a @ [(k, res, Reported True)])"
proof (cases ev)
  case (Manager mev)
  with assms show ?thesis by simp
next
  case ResultsBegin
  with assms show ?thesis
    by (auto simp: process_job_results_begin_def next_entry_def
          split: results_pc.splits if_splits)
next
  case (ResultsSend r)
  with assms show ?thesis
    by (auto simp: process_job_results_send_def next_entry_def
          split: results_pc.splits list.splits prod.splits if_splits)
next
  case ResultsRemove
  with assms show ?thesis
    by (auto simp: process_job_results_remove_def next_entry_def
          split: results_pc.splits if_splits)
qed

text \<open>
  C6. The claim: an entry of \<open>completed_jobs\<close> is removed only by the acknowledgement that
  follows its own successful report, and a completed result is never silently dropped.
  \<open>_execute_job\<close> stores a result with \<open>completed_jobs[job_id] = result\<close>, and
  \<open>remove_completed_job\<close> deletes whatever is stored under the job id. Take one slot and
  the assignment \<open>{"job_id": "a", "job_type": "ocr", "parameters": {"input_file":
  "/data/a.png"}}\<close> admitted twice while it is still queued, the first copy producing the
  result \<open>first\<close> and the second the result \<open>second\<close>. In the first run both copies finish
  before \<open>process_job_results\<close> starts: \<open>first\<close> is stored and then overwritten, only
  \<open>second\<close> is sent, and the dictionary is empty afterwards. In the second run the second
  copy finishes while the report of \<open>first\<close> is under way: \<open>second\<close> is stored, the
  acknowledgement of \<open>first\<close> deletes it, and it is never sent.
\<close>

theorem completed_result_dropped_unreported:
  "completed_jobs (manager (agent_run (new_agent 1 True)
      (map Manager
         [AddJob [(''job_id'', PyStr ''a''), (''job_type'', PyStr ''ocr''),
                  (''parameters'', PyDict [(''input_file'', PyStr ''/data/a.png'')])],
          AddJob [(''job_id'', PyStr ''a''), (''job_type'', PyStr ''ocr''),
                  (''parameters'', PyDict [(''input_file'', PyStr ''/data/a.png'')])],
          WorkerCheck, WorkerGet, WorkerDispatch dispatch_ok,
          ExecuteJob 0 \<lparr>nt_paths = False, process_job = Returns (PyStr ''first'')\<rparr>])))
     = [(''a'', completed_result (PyStr ''first''))]
   \<and> completed_jobs (manager (agent_run (new_agent 1 True)
      (map Manager
         [AddJob [(''job_id'', PyStr ''a''), (''job_type'', PyStr ''ocr''),
                  (''parameters'', PyDict [(''input_file'', PyStr ''/data/a.png'')])],
          AddJob [(''job_id'', PyStr ''a''), (''job_type'', PyStr ''ocr''),
                  (''parameters'', PyDict [(''input_file'', PyStr ''/data/a.png'')])],
          WorkerCheck, WorkerGet, WorkerDispatch dispatch_ok,
          ExecuteJob 0 \<lparr>nt_paths = False, process_job = Returns (PyStr ''first'')\<rparr>,
          WorkerCheck, WorkerGet, WorkerDispatch dispatch_ok,
          ExecuteJob 0 \<lparr>nt_paths = False, process_job = Returns (PyStr ''second'')\<rparr>])))
     = [(''a'', completed_result (PyStr ''second''))]
   \<and> completed_jobs (manager (agent_run (new_agent 1 True)
      (map Manager
         [AddJob [(''job_id'', PyStr ''a''), (''job_type'', PyStr ''ocr''),
                  (''parameters'', PyDict [(''input_file'', PyStr ''/data/a.png'')])],
          AddJob [(''job_id'', PyStr ''a''), (''job_type'', PyStr ''ocr''),
                  (''parameters'', PyDict [(''input_file'', PyStr ''/data/a.png'')])],
          WorkerCheck, WorkerGet, WorkerDispatch dispatch_ok,
          ExecuteJob 0 \<lparr>nt_paths = False, process_job = Returns (PyStr ''first'')\<rparr>,
          WorkerCheck, WorkerGet, WorkerDispatch dispatch_ok,
          ExecuteJob 0 \<lparr>nt_paths = False, process_job = Returns (PyStr ''second'')\<rparr>]
       @ [ResultsBegin, ResultsSend (Reported True), ResultsRemove])))
     = []
   \<and> sent (agent_run (new_agent 1 True)
      (map Manager
         [AddJob [(''job_id'', PyStr ''a''), (''job_type'', PyStr ''ocr''),
                  (''parameters'', PyDict [(''input_file'', PyStr ''/data/a.png'')])],
          AddJob [(''job_id'', PyStr ''a''), (''job_type'', PyStr ''ocr''),
                  (''parameters'', PyDict [(''input_file'', PyStr ''/data/a.png'')])],
          WorkerCheck, WorkerGet, WorkerDispatch dispatch_ok,
          ExecuteJob 0 \<lparr>nt_paths = False, process_job = Returns (PyStr ''first'')\<rparr>,
          WorkerCheck, WorkerGet, WorkerDispatch dispatch_ok,
          ExecuteJob 0 \<lparr>nt_paths = False, process_job = Returns (PyStr ''second'')\<rparr>]
       @ [ResultsBegin, ResultsSend (Reported True), ResultsRemove]))
     = [(''a'', completed_result (PyStr ''second''), Reported True)]
   \<and> completed_jobs (manager (agent_run (new_agent 1 True)
      (map Manager
         [AddJob [(''job_id'', PyStr ''a''), (''job_type'', PyStr ''ocr''),
                  (''parameters'', PyDict [(''input_file'', PyStr ''/data/a.png'')])],
          AddJob [(''job_id'', PyStr ''a''), (''job_type'', PyStr ''ocr''),
                  (''parameters'', PyDict [(''input_file'', PyStr ''/data/a.png'')])],
          WorkerCheck, WorkerGet, WorkerDispatch dispatch_ok,
          ExecuteJob 0 \<lparr>nt_paths = False, process_job = Returns (PyStr ''first'')\<rparr>]
       @ [ResultsBegin, ResultsSend (Reported True)]
       @ map Manager
         [WorkerCheck, WorkerGet, WorkerDispatch dispatch_ok,
          ExecuteJob 0 \<lparr>nt_paths = False, process_job = Returns (PyStr ''second'')\<rparr>])))
     = [(''a'', completed_result (PyStr ''second''))]
   \<and> completed_jobs (manager (agent_run (new_agent 1 True)
      (map Manager
         [AddJob [(''job_id'', PyStr ''a''), (''job_type'', PyStr ''ocr''),
                  (''parameters'', PyDict [(''input_file'', PyStr ''/data/a.png'')])],
          AddJob [(''job_id'', PyStr ''a''), (''job_type'', PyStr ''ocr''),
                  (''parameters'', PyDict [(''input_file'', PyStr ''/data/a.png'')])],
          WorkerCheck, WorkerGet, WorkerDispatch dispatch_ok,
          ExecuteJob 0 \<lparr>nt_paths = False, process_job = Returns (PyStr ''first'')\<rparr>]
       @ [ResultsBegin, ResultsSend (Reported True)]
       @ map Manager
         [WorkerCheck, WorkerGet, WorkerDispatch dispatch_ok,
          ExecuteJob 0 \<lparr>nt_paths = False, process_job = Returns (PyStr ''second'')\<rparr>]
       @ [ResultsRemove])))
     = []
   \<and> sent (agent_run (new_agent 1 True)
      (map Manager
         [AddJob [(''job_id'', PyStr ''a''), (''job_type'', PyStr ''ocr''),
                  (''parameters'', PyDict [(''input_file'', PyStr ''/data/a.png'')])],
          AddJob [(''job_id'', PyStr ''a''), (''job_type'', PyStr ''ocr''),
                  (''parameters'', PyDict [(''input_file'', PyStr ''/data/a.png'')])],
          WorkerCheck, WorkerGet, WorkerDispatch dispatch_ok,
          ExecuteJob 0 \<lparr>nt_paths = False, process_job = Returns (PyStr ''first'')\<rparr>]
       @ [ResultsBegin, ResultsSend (Reported True)]
       @ map Manager
         [WorkerCheck, WorkerGet, WorkerDispatch dispatch_ok,
          ExecuteJob 0 \<lparr>nt_paths = False, process_job = Returns (PyStr ''second'')\<rparr>]
       @ [ResultsRemove]))
     = [(''a'', completed_result (PyStr ''first''), Reported True)]"
  by (simp add: manager_defs agent_defs)

section \<open>The scheduling window\<close>

text \<open>
  C8. With \<open>working_hours_only\<close> set, jobs may be processed exactly when the name of the
  current day is among \<open>working_days\<close> and the current time, as \<open>HH:MM\<close>, lies in the
  window: between start and end when the end is not below the start as a string, and at
  or after the start or at or before the end when it is (a window over midnight). With
  Monday as the only working day and the window from 18:00 to 08:00, Monday 20:00 and
  Monday 07:00 are inside and Tuesday 10:00 is outside.
\<close>

theorem can_process_jobs_now_window:
  assumes "working_hours_only sch = Some True"
  shows "can_process_jobs_now sch now =
           (day_name (weekday now) \<in> set (working_days sch)
            \<and> (if (case working_hours_end sch of None \<Rightarrow> ''08:00'' | Some t \<Rightarrow> t)
                    < (case working_hours_start sch of None \<Rightarrow> ''18:00'' | Some t \<Rightarrow> t)
                then current_time now
                       \<ge> (case working_hours_start sch of None \<Rightarrow> ''18:00'' | Some t \<Rightarrow> t)
                     \<or> current_time now
                       \<le> (case working_hours_end sch of None \<Rightarrow> ''08:00'' | Some t \<Rightarrow> t)
                else (case working_hours_start sch of None \<Rightarrow> ''18:00'' | Some t \<Rightarrow> t)
                       \<le> current_time now
                     \<and> current_time now
                       \<le> (case working_hours_end sch of None \<Rightarrow> ''08:00'' | Some t \<Rightarrow> t)))"
  using assms by (simp add: can_process_jobs_now_def Let_def)

theorem can_process_jobs_now_window_witness:
  "can_process_jobs_now
     \<lparr>working_hours_only = Some True, working_days = [''Monday''],
       working_hours_start = Some ''18:00'', working_hours_end = Some ''08:00''\<rparr>
     \<lparr>weekday = Monday, hour = 20, minute = 0\<rparr>
   \<and> \<not> can_process_jobs_now
     \<lparr>working_hours_only = Some True, working_days = [''Monday''],
       working_hours_start = Some ''18:00'', working_hours_end = Some ''08:00''\<rparr>
     \<lparr>weekday = Tuesday, hour = 10, minute = 0\<rparr>
   \<and> can_process_jobs_now
     \<lparr>working_hours_only = Some True, working_days = [''Monday''],
       working_hours_start = Some ''18:00'', working_hours_end = Some ''08:00''\<rparr>
     \<lparr>weekday = Monday, hour = 7, minute = 0\<rparr>"
proof -
  have t20: "current_time \<lparr>weekday = Monday, hour = 20, minute = 0\<rparr> = ''20:00''"
    by (simp add: current_time_def two_digits_def)
  have t07: "current_time \<lparr>weekday = Monday, hour = 7, minute = 0\<rparr> = ''07:00''"
    by (simp add: current_time_def two_digits_def)
  have wrap: "''08:00'' < ''18:00''" and in20: "''18:00'' \<le> ''20:00''"
    and in07: "''07:00'' \<le> ''08:00''"
    by (simp_all add: less_char_def less_eq_char_def)
  show ?thesis
    using
      can_process_jobs_now_window
        [of "\<lparr>working_hours_only = Some True, working_days = [''Monday''],
               working_hours_start = Some ''18:00'', working_hours_end = Some ''08:00''\<rparr>"
            "\<lparr>weekday = Monday, hour = 20, minute = 0\<rparr>"]
      can_process_jobs_now_window
        [of "\<lparr>working_hours_only = Some True, working_days = [''Monday''],
               working_hours_start = Some ''18:00'', working_hours_end = Some ''08:00''\<rparr>"
            "\<lparr>weekday = Tuesday, hour = 10, minute = 0\<rparr>"]
      can_process_jobs_now_window
        [of "\<lparr>working_hours_only = Some True, working_days = [''Monday''],
               working_hours_start = Some ''18:00'', working_hours_end = Some ''08:00''\<rparr>"
            "\<lparr>weekday = Monday, hour = 7, minute = 0\<rparr>"]
      t20 t07 wrap in20 in07
    by simp
qed

section \<open>Floating-point arithmetic: evaluation and accuracy\<close>
























section \<open>Sampling: \<open>ResourceMonitor._monitor_loop\<close>\<close>
















end
